theory Spec2Isabelle
  imports Complex_Main
begin

section \<open>The training script \<^verbatim>\<open>train.py\<close>\<close>

text \<open>
  The script drives a deep-learning framework. What the framework computes (losses, the
  parameters after an optimizer step, the outcome of \<^verbatim>\<open>os.mkdir\<close>) enters the model as
  input data; what the script itself decides (the split of the dataset, the clamped epoch
  loss, the validation cadence, the checkpoint policy, the exception handlers, the choice of
  the network) is translated function by function. Python floats are idealised as reals,
  Python integers are \<^typ>\<open>int\<close>.
\<close>

subsection \<open>Exceptions\<close>

datatype exc =
    KeyboardInterrupt
  | SystemExit int
  | OSError
  | FileExistsError
  | FileNotFoundError
  | AttributeError
  | ZeroDivisionError
  | AssertionError
  | KeyError
  | RuntimeError

text \<open>What \<^verbatim>\<open>except OSError\<close> catches: the class and its subclasses.\<close>

fun is_OSError :: "exc \<Rightarrow> bool" where
  "is_OSError OSError = True"
| "is_OSError FileExistsError = True"
| "is_OSError FileNotFoundError = True"
| "is_OSError _ = False"

subsection \<open>Splitting the dataset (lines 28 to 30)\<close>

text \<open>Python's \<^verbatim>\<open>int\<close> of a float drops the fractional part: it rounds toward zero.\<close>

definition py_int :: "real \<Rightarrow> int" where
  "py_int x = (if 0 \<le> x then \<lfloor>x\<rfloor> else \<lceil>x\<rceil>)"

text \<open>\<^verbatim>\<open>n_val = int(len(dataset) * val_percent)\<close>, the first argument being \<^verbatim>\<open>len(dataset)\<close>.\<close>

definition n_val :: "nat \<Rightarrow> real \<Rightarrow> int" where
  "n_val N val_percent = py_int (real N * val_percent)"

text \<open>\<^verbatim>\<open>n_train = len(dataset) - n_val\<close>\<close>

definition n_train :: "nat \<Rightarrow> real \<Rightarrow> int" where
  "n_train N val_percent = int N - n_val N val_percent"

subsection \<open>The learning-rate factor (lines 55 and 56)\<close>

text \<open>
  \<^verbatim>\<open>lf(x) = (((1 + math.cos(x * math.pi / epochs)) / 2) ** 1.0) * 0.95 + 0.05\<close>.
  The division raises when \<^verbatim>\<open>epochs\<close> is zero.
\<close>

definition lf :: "int \<Rightarrow> real \<Rightarrow> exc + real" where
  "lf epochs x =
     (if epochs = 0 then Inl ZeroDivisionError
      else Inr ((((1 + cos (x * pi / real_of_int epochs)) / 2) powr 1) * 0.95 + 0.05))"

subsection \<open>The network chosen by \<^verbatim>\<open>--unet_type\<close> (lines 199 to 206)\<close>

datatype arch = UNet | UNet2Plus | UNet3Plus_DeepSup_CGM

record net =
  arch :: arch
  n_channels :: int
  n_classes :: int

definition select_model :: "string \<Rightarrow> net" where
  "select_model unet_type =
     (if unet_type = ''v2'' then \<lparr>arch = UNet2Plus, n_channels = 3, n_classes = 1\<rparr>
      else if unet_type = ''v3'' then \<lparr>arch = UNet3Plus_DeepSup_CGM, n_channels = 3, n_classes = 1\<rparr>
      else \<lparr>arch = UNet, n_channels = 3, n_classes = 1\<rparr>)"

subsection \<open>The state the script works on\<close>

text \<open>
  What the script reports to the outside, in the order it happens: the scalar written for
  each batch with the global step it is written at, a validation run with its global step,
  a step of the scheduler, the attempt to create a directory, a line of the log, and a file
  written by \<^verbatim>\<open>torch.save\<close>.
\<close>

datatype event =
    TrainLoss real int
  | Validation int
  | SchedulerStep
  | OsMkdir string
  | Info string
  | TorchSave string

text \<open>
  A checkpoint is a Python dict from keys to state dicts; \<^typ>\<open>'sd\<close> is the type of state
  dicts. The state holds the state dict of the model and of the optimizer (both objects are
  mutated in place, so their states survive an exception), the files written so far, the
  local variables \<^verbatim>\<open>global_step\<close>, \<^verbatim>\<open>epoch_loss\<close> and \<^verbatim>\<open>best_loss\<close> of
  \<^verbatim>\<open>train_net\<close>, and the events so far.
\<close>

type_synonym 'sd checkpoint = "string \<rightharpoonup> 'sd"

record 'sd state =
  model_sd :: 'sd
  optim_sd :: 'sd
  files :: "string \<rightharpoonup> 'sd checkpoint"
  global_step :: int
  epoch_loss :: real
  best_loss :: real
  trace :: "event list"

definition emit :: "event \<Rightarrow> 'sd state \<Rightarrow> 'sd state" where
  "emit ev st = st\<lparr>trace := trace st @ [ev]\<rparr>"

subsection \<open>Saving and loading checkpoints (lines 168 to 179)\<close>

text \<open>
  \<^verbatim>\<open>torch.save\<close> and \<^verbatim>\<open>torch.load\<close> are taken as a store and a lookup in the files: the
  framework's serialisation is assumed to give back what was written.
\<close>

definition torch_save :: "'sd checkpoint \<Rightarrow> string \<Rightarrow> 'sd state \<Rightarrow> 'sd state" where
  "torch_save ckpt f st = emit (TorchSave f) (st\<lparr>files := (files st)(f \<mapsto> ckpt)\<rparr>)"

definition save_pt :: "string \<Rightarrow> 'sd state \<Rightarrow> 'sd state" where
  "save_pt f st =
     (let checkpoint = [''model'' \<mapsto> model_sd st, ''optimizer'' \<mapsto> optim_sd st]
      in torch_save checkpoint f st)"

text \<open>
  \<^verbatim>\<open>load_pt\<close> raises when the file is missing or a key is absent; the model is loaded before
  the optimizer's key is looked up.
\<close>

definition load_pt :: "string \<Rightarrow> 'sd state \<Rightarrow> exc option \<times> 'sd state" where
  "load_pt f st =
     (case files st f of
        None \<Rightarrow> (Some FileNotFoundError, st)
      | Some checkpoint \<Rightarrow>
          (case checkpoint ''model'' of
             None \<Rightarrow> (Some KeyError, st)
           | Some m \<Rightarrow>
               (let st1 = st\<lparr>model_sd := m\<rparr>
                in case checkpoint ''optimizer'' of
                     None \<Rightarrow> (Some KeyError, st1)
                   | Some opt \<Rightarrow> (None, st1\<lparr>optim_sd := opt\<rparr>))))"

subsection \<open>One batch (lines 75 to 116)\<close>

text \<open>
  What the framework yields for one batch: the number of channels of the loaded images
  (\<^verbatim>\<open>imgs.shape[1]\<close>), the value of the loss (\<^verbatim>\<open>loss.item()\<close>), and the state dicts of the
  model and the optimizer after \<^verbatim>\<open>optimizer.step()\<close>.
\<close>

record 'sd batch =
  img_channels :: int
  item_loss :: real
  model_after :: 'sd
  optim_after :: 'sd

text \<open>
  The body of the inner loop, for a model with \<^verbatim>\<open>nc\<close> input channels and a training set of
  size \<^verbatim>\<open>nt\<close>. The assertion fails before anything is changed; the modulo by
  \<^verbatim>\<open>n_train // 10\<close> raises after the loss, the parameters and the global step are updated.
\<close>

definition train_batch :: "int \<Rightarrow> int \<Rightarrow> 'sd state \<Rightarrow> 'sd batch \<Rightarrow> exc option \<times> 'sd state" where
  "train_batch nc nt st b =
     (if img_channels b \<noteq> nc then (Some AssertionError, st)
      else
        let st1 = st\<lparr>epoch_loss := epoch_loss st + (if item_loss b \<le> 1 then item_loss b else 1)\<rparr>;
            st2 = emit (TrainLoss (item_loss b) (global_step st1)) st1;
            st3 = st2\<lparr>model_sd := model_after b, optim_sd := optim_after b\<rparr>;
            st4 = st3\<lparr>global_step := global_step st3 + 1\<rparr>
        in if nt div 10 = 0 then (Some ZeroDivisionError, st4)
           else if global_step st4 mod (nt div 10) = 0
             then (None, emit (Validation (global_step st4)) st4)
             else (None, st4))"

text \<open>
  What the training loader delivers in one epoch: a batch, or an exception raised by the
  framework (or a keyboard interrupt arriving) before the script has touched the batch.
\<close>

datatype 'sd feed = Batch "'sd batch" | Raises exc

fun train_batches :: "int \<Rightarrow> int \<Rightarrow> 'sd state \<Rightarrow> 'sd feed list \<Rightarrow> exc option \<times> 'sd state" where
  "train_batches nc nt st [] = (None, st)"
| "train_batches nc nt st (Raises e # fs) = (Some e, st)"
| "train_batches nc nt st (Batch b # fs) =
     (case train_batch nc nt st b of
        (Some e, st') \<Rightarrow> (Some e, st')
      | (None, st') \<Rightarrow> train_batches nc nt st' fs)"

subsection \<open>The end of an epoch (lines 118 to 132)\<close>

definition dir_checkpoint :: string where
  "dir_checkpoint = ''ckpts/''"

text \<open>Decimal digits of a natural number, as \<^verbatim>\<open>str\<close> prints an integer.\<close>

fun str_nat :: "nat \<Rightarrow> string" where
  "str_nat n =
     (if n < 10 then [''0123456789'' ! n]
      else str_nat (n div 10) @ [''0123456789'' ! (n mod 10)])"

declare str_nat.simps [simp del]

text \<open>
  The name \<^verbatim>\<open>f'{dir_checkpoint}/epoch{epoch+1}_{epoch_loss}.pt'\<close>; how a float is printed is
  left to the parameter \<^verbatim>\<open>fmt\<close>.
\<close>

definition ckpt_name :: "(real \<Rightarrow> string) \<Rightarrow> nat \<Rightarrow> real \<Rightarrow> string" where
  "ckpt_name fmt epoch loss =
     dir_checkpoint @ ''/epoch'' @ str_nat (epoch + 1) @ ''_'' @ fmt loss @ ''.pt''"

text \<open>
  The \<^verbatim>\<open>try\<close> around \<^verbatim>\<open>os.mkdir\<close>; \<^verbatim>\<open>mk\<close> is what the call does: return (\<open>None\<close>) or
  raise.
\<close>

definition try_mkdir :: "exc option \<Rightarrow> 'sd state \<Rightarrow> exc option \<times> 'sd state" where
  "try_mkdir mk st =
     (let st1 = emit (OsMkdir dir_checkpoint) st
      in case mk of
           None \<Rightarrow> (None, emit (Info ''Created checkpoint directory'') st1)
         | Some e \<Rightarrow> if is_OSError e then (None, st1) else (Some e, st1))"

definition end_of_epoch ::
  "bool \<Rightarrow> (real \<Rightarrow> string) \<Rightarrow> exc option \<Rightarrow> nat \<Rightarrow> 'sd state \<Rightarrow> exc option \<times> 'sd state" where
  "end_of_epoch save_cp fmt mk epoch st =
     (let st1 = emit SchedulerStep st
      in if save_cp then
           (case try_mkdir mk st1 of
              (Some e, st2) \<Rightarrow> (Some e, st2)
            | (None, st2) \<Rightarrow>
                if epoch_loss st2 < best_loss st2
                then (None, emit (Info (''Checkpoint '' @ str_nat (epoch + 1) @
                                          '' saved ! loss (batch) = '' @ fmt (epoch_loss st2)))
                        ((save_pt (ckpt_name fmt epoch (epoch_loss st2)) st2)
                           \<lparr>best_loss := epoch_loss st2\<rparr>))
                else (None, st2))
         else (None, st1))"

subsection \<open>The loop over the epochs (lines 66 to 132)\<close>

text \<open>
  The surroundings of a run: the batches the loader delivers in each epoch and what
  \<^verbatim>\<open>os.mkdir\<close> does at the end of each epoch.
\<close>

record 'sd env =
  loader :: "nat \<Rightarrow> 'sd feed list"
  mkdir_outcome :: "nat \<Rightarrow> exc option"

definition run_epoch ::
  "'sd env \<Rightarrow> int \<Rightarrow> int \<Rightarrow> bool \<Rightarrow> (real \<Rightarrow> string) \<Rightarrow> nat \<Rightarrow> 'sd state \<Rightarrow> exc option \<times> 'sd state" where
  "run_epoch env nc nt save_cp fmt epoch st =
     (case train_batches nc nt (st\<lparr>epoch_loss := 0\<rparr>) (loader env epoch) of
        (Some e, st1) \<Rightarrow> (Some e, st1)
      | (None, st1) \<Rightarrow> end_of_epoch save_cp fmt (mkdir_outcome env epoch) epoch st1)"

fun run_epochs ::
  "'sd env \<Rightarrow> int \<Rightarrow> int \<Rightarrow> bool \<Rightarrow> (real \<Rightarrow> string) \<Rightarrow> nat list \<Rightarrow> 'sd state \<Rightarrow> exc option \<times> 'sd state" where
  "run_epochs env nc nt save_cp fmt [] st = (None, st)"
| "run_epochs env nc nt save_cp fmt (epoch # es) st =
     (case run_epoch env nc nt save_cp fmt epoch st of
        (Some e, st1) \<Rightarrow> (Some e, st1)
      | (None, st1) \<Rightarrow> run_epochs env nc nt save_cp fmt es st1)"

text \<open>
  \<^verbatim>\<open>train_net\<close>: \<^verbatim>\<open>N\<close> is \<^verbatim>\<open>len(dataset)\<close>; \<^verbatim>\<open>range(epochs)\<close> is empty for a negative
  number of epochs. The progress bar, the learning rates collected for the plot and the
  plot itself do not influence the run and are left out.
\<close>

definition train_net ::
  "'sd env \<Rightarrow> net \<Rightarrow> nat \<Rightarrow> int \<Rightarrow> real \<Rightarrow> bool \<Rightarrow> (real \<Rightarrow> string) \<Rightarrow> 'sd state \<Rightarrow> exc option \<times> 'sd state" where
  "train_net env model N epochs val_percent save_cp fmt st =
     run_epochs env (n_channels model) (n_train N val_percent) save_cp fmt [0..<nat epochs]
       (st\<lparr>global_step := 0, best_loss := 10000\<rparr>)"

subsection \<open>The entry point (lines 182 to 230)\<close>

text \<open>The parsed command line, as far as the script itself looks at it.\<close>

record args =
  arg_unet_type :: string
  arg_epochs :: int
  arg_val :: real

text \<open>
  The handler of \<^verbatim>\<open>KeyboardInterrupt\<close>: the checkpoint is written and logged, then
  \<^verbatim>\<open>sys.exit(0)\<close> raises \<^verbatim>\<open>SystemExit\<close>, which the inner handler catches to call
  \<^verbatim>\<open>os.exit(0)\<close>; the module \<^verbatim>\<open>os\<close> has no attribute of that name.
\<close>

definition sys_exit :: "int \<Rightarrow> exc option" where
  "sys_exit code = Some (SystemExit code)"

definition on_interrupt :: "'sd state \<Rightarrow> exc option \<times> 'sd state" where
  "on_interrupt st =
     (let st1 = save_pt ''INTERRUPTED.pt'' st;
          st2 = emit (Info ''Saved interrupt'') st1
      in case sys_exit 0 of
           Some (SystemExit c) \<Rightarrow> (Some AttributeError, st2)
         | r \<Rightarrow> (r, st2))"

text \<open>The \<^verbatim>\<open>try\<close> around the call of \<^verbatim>\<open>train_net\<close>.\<close>

definition main_try :: "exc option \<times> 'sd state \<Rightarrow> exc option \<times> 'sd state" where
  "main_try r =
     (case r of
        (Some KeyboardInterrupt, st) \<Rightarrow> on_interrupt st
      | _ \<Rightarrow> r)"

definition main :: "args \<Rightarrow> 'sd env \<Rightarrow> nat \<Rightarrow> (real \<Rightarrow> string) \<Rightarrow> 'sd state \<Rightarrow> exc option \<times> 'sd state" where
  "main a env N fmt st =
     (let model = select_model (arg_unet_type a)
      in main_try (train_net env model N (arg_epochs a) (arg_val a / 100) True fmt st))"

subsection \<open>Reading a trace\<close>

text \<open>The global steps at which validation ran, the files saved, the losses reported.\<close>

fun validations :: "event list \<Rightarrow> int list" where
  "validations [] = []"
| "validations (Validation g # evs) = g # validations evs"
| "validations (_ # evs) = validations evs"

fun saves :: "event list \<Rightarrow> string list" where
  "saves [] = []"
| "saves (TorchSave f # evs) = f # saves evs"
| "saves (_ # evs) = saves evs"

fun train_losses :: "event list \<Rightarrow> real list" where
  "train_losses [] = []"
| "train_losses (TrainLoss l g # evs) = l # train_losses evs"
| "train_losses (_ # evs) = train_losses evs"

text \<open>
  The sum an epoch is expected to accumulate, in the words of the specification: each
  batch contributes the smaller of its loss and one.
\<close>

fun clamped_sum :: "'sd feed list \<Rightarrow> real" where
  "clamped_sum [] = 0"
| "clamped_sum (Batch b # fs) = min (item_loss b) 1 + clamped_sum fs"
| "clamped_sum (Raises e # fs) = clamped_sum fs"

text \<open>
  The steps among the \<open>k\<close> steps after global step \<open>g\<close> that are divisible by
  \<^verbatim>\<open>n_train // 10\<close>.
\<close>

definition due :: "int \<Rightarrow> int \<Rightarrow> nat \<Rightarrow> int list" where
  "due nt g k = filter (\<lambda>s. s mod (nt div 10) = 0) [g + 1..g + int k]"

definition total_batches :: "'sd env \<Rightarrow> nat list \<Rightarrow> nat" where
  "total_batches env es = sum_list (map (\<lambda>e. length (loader env e)) es)"

subsection \<open>A small run, for the examples\<close>

text \<open>
  State dicts are numbers here: the model and the optimizer start at 0, a batch leaves the
  model at 1 and the optimizer at 2. Images have three channels.
\<close>

definition st0 :: "nat state" where
  "st0 = \<lparr>model_sd = 0, optim_sd = 0, files = Map.empty, global_step = 0, epoch_loss = 0,
          best_loss = 0, trace = []\<rparr>"

definition bt :: "real \<Rightarrow> nat batch" where
  "bt l = \<lparr>img_channels = 3, item_loss = l, model_after = 1, optim_after = 2\<rparr>"

definition fmt0 :: "real \<Rightarrow> string" where
  "fmt0 x = ''L''"

text \<open>
  Loaders with \<open>k\<close> batches of loss \<open>l\<close> in every epoch; in the first the directory can be
  created, in the second it exists already, in the third the second epoch is interrupted
  from the keyboard after its first batch.
\<close>

definition env_ok :: "nat \<Rightarrow> real \<Rightarrow> nat env" where
  "env_ok k l = \<lparr>loader = (\<lambda>e. replicate k (Batch (bt l))), mkdir_outcome = (\<lambda>e. None)\<rparr>"

definition env_exists :: "nat \<Rightarrow> real \<Rightarrow> nat env" where
  "env_exists k l =
     \<lparr>loader = (\<lambda>e. replicate k (Batch (bt l))), mkdir_outcome = (\<lambda>e. Some FileExistsError)\<rparr>"

definition env_interrupted :: "nat env" where
  "env_interrupted =
     \<lparr>loader = (\<lambda>e. if e = 0 then replicate 10 (Batch (bt 0.5))
                     else [Batch (bt 0.25), Raises KeyboardInterrupt]),
      mkdir_outcome = (\<lambda>e. None)\<rparr>"

definition args0 :: args where
  "args0 = \<lparr>arg_unet_type = ''v3'', arg_epochs = 2, arg_val = 10\<rparr>"

section \<open>Properties\<close>

subsection \<open>Evaluating the model\<close>

lemmas ev = train_net_def run_epoch_def end_of_epoch_def try_mkdir_def train_batch_def
  save_pt_def torch_save_def load_pt_def emit_def Let_def n_train_def n_val_def py_int_def
  select_model_def st0_def bt_def fmt0_def ckpt_name_def dir_checkpoint_def str_nat.simps
  env_ok_def env_exists_def env_interrupted_def args0_def main_def main_try_def
  on_interrupt_def sys_exit_def

subsection \<open>Traces\<close>

lemma validations_append: "validations (xs @ ys) = validations xs @ validations ys"
  by (induction xs rule: validations.induct) simp_all

lemma saves_append: "saves (xs @ ys) = saves xs @ saves ys"
  by (induction xs rule: saves.induct) simp_all

lemma train_losses_append: "train_losses (xs @ ys) = train_losses xs @ train_losses ys"
  by (induction xs rule: train_losses.induct) simp_all

subsection \<open>Counting the steps that are due\<close>

lemma due_step:
  "due nt g (Suc k) = (if (g + 1) mod (nt div 10) = 0 then [g + 1] else []) @ due nt (g + 1) k"
proof -
  have e: "g + int (Suc k) = g + 1 + int k" by simp
  have "g + 1 \<le> g + 1 + int k" by simp
  then have "[g + 1..g + 1 + int k] = (g + 1) # [g + 1 + 1..g + 1 + int k]"
    by (rule upto_rec1)
  then have "due nt g (Suc k) =
      filter (\<lambda>s. s mod (nt div 10) = 0) ((g + 1) # [g + 1 + 1..g + 1 + int k])"
    unfolding due_def e by (rule arg_cong)
  also have "\<dots> = (if (g + 1) mod (nt div 10) = 0 then [g + 1] else []) @ due nt (g + 1) k"
    unfolding due_def by (simp only: filter.simps append.simps split: if_split) simp
  finally show ?thesis .
qed

lemma due_append: "due nt g (j + k) = due nt g j @ due nt (g + int j) k"
proof (induction j arbitrary: g)
  case 0
  then show ?case by (simp add: due_def)
next
  case (Suc j)
  have "due nt g (Suc j + k) = due nt g (Suc (j + k))" by simp
  also have "\<dots> = (if (g + 1) mod (nt div 10) = 0 then [g + 1] else []) @ due nt (g + 1) (j + k)"
    by (rule due_step)
  also have "due nt (g + 1) (j + k) = due nt (g + 1) j @ due nt (g + 1 + int j) k"
    by (rule Suc.IH)
  also have "g + 1 + int j = g + int (Suc j)" by simp
  finally show ?case by (simp add: due_step)
qed

lemma div_succ:
  fixes x q :: int
  assumes "0 < q"
  shows "(x + 1) div q = x div q + (if (x + 1) mod q = 0 then 1 else 0)"
proof -
  have x: "x = q * (x div q) + x mod q" by simp
  have r: "0 \<le> x mod q" "x mod q < q" using assms by simp_all
  show ?thesis
  proof (cases "x mod q + 1 = q")
    case True
    have "x + 1 = q * (x div q) + (x mod q + 1)" using x by linarith
    also have "\<dots> = q * (x div q + 1) + 0" using True by (simp add: algebra_simps)
    finally have e: "x + 1 = q * (x div q + 1) + 0" .
    have "(x + 1) div q = x div q + 1" using assms by (intro int_div_pos_eq [OF e]) simp_all
    moreover have "(x + 1) mod q = 0" using assms by (intro int_mod_pos_eq [OF e]) simp_all
    ultimately show ?thesis by simp
  next
    case False
    have e: "x + 1 = q * (x div q) + (x mod q + 1)" using x by linarith
    have lt: "x mod q + 1 < q" using False r by linarith
    have "(x + 1) div q = x div q" using r lt by (intro int_div_pos_eq [OF e]) simp_all
    moreover have "(x + 1) mod q = x mod q + 1" using r lt by (intro int_mod_pos_eq [OF e]) simp_all
    ultimately show ?thesis using r by simp
  qed
qed

lemma length_due:
  assumes "0 < nt div 10"
  shows "int (length (due nt g k)) = (g + int k) div (nt div 10) - g div (nt div 10)"
proof (induction k arbitrary: g)
  case 0
  then show ?case by (simp add: due_def)
next
  case (Suc k)
  have "int (length (due nt g (Suc k))) =
      (if (g + 1) mod (nt div 10) = 0 then 1 else 0) + int (length (due nt (g + 1) k))"
    by (simp add: due_step)
  also have "\<dots> = (if (g + 1) mod (nt div 10) = 0 then 1 else 0) +
      ((g + 1 + int k) div (nt div 10) - (g + 1) div (nt div 10))"
    by (simp only: Suc.IH)
  also have "\<dots> = (g + 1 + int k) div (nt div 10) - g div (nt div 10)"
    by (simp add: div_succ [OF assms, of g])
  also have "g + 1 + int k = g + int (Suc k)" by simp
  finally show ?case .
qed

text \<open>With one batch per training sample, ten to nineteen steps of an epoch are due.\<close>

lemma count_batch_size_one:
  assumes "10 \<le> nt"
  shows "10 \<le> length (due nt g (nat nt)) \<and> length (due nt g (nat nt)) \<le> 19"
proof -
  define q where "q = nt div 10"
  define r where "r = nt mod 10"
  have q: "1 \<le> q" using assms unfolding q_def by simp
  have nt: "nt = q * 10 + r" unfolding q_def r_def by simp
  have r: "0 \<le> r" "r \<le> 9" unfolding r_def by simp_all
  have len: "int (length (due nt g (nat nt))) = (g + nt) div q - g div q"
    using length_due [of nt g "nat nt"] q assms unfolding q_def by simp
  have "(g + nt) div q = (g + r + 10 * q) div q" using nt by (simp add: algebra_simps)
  also have "\<dots> = (g + r) div q + 10" using q by simp
  finally have 1: "(g + nt) div q = (g + r) div q + 10" .
  have lo: "g div q \<le> (g + r) div q" using q r by (intro zdiv_mono1) simp_all
  have "9 * 1 \<le> 9 * q" using q by (intro mult_left_mono) simp_all
  then have "g + r \<le> g + 9 * q" using r by linarith
  then have "(g + r) div q \<le> (g + 9 * q) div q" using q
    by (intro zdiv_mono1) simp_all
  also have "\<dots> = g div q + 9" using q by simp
  finally have hi: "(g + r) div q \<le> g div q + 9" .
  from len 1 lo hi show ?thesis by linarith
qed

subsection \<open>One batch and the loop over the batches\<close>

lemma train_batch_ok:
  assumes "train_batch nc nt st b = (None, st')"
  shows "st' = st\<lparr>epoch_loss := epoch_loss st + min (item_loss b) 1,
                  model_sd := model_after b, optim_sd := optim_after b,
                  global_step := global_step st + 1,
                  trace := trace st @ TrainLoss (item_loss b) (global_step st) #
                    (if (global_step st + 1) mod (nt div 10) = 0
                     then [Validation (global_step st + 1)] else [])\<rparr>"
    and "nt div 10 \<noteq> 0" and "img_channels b = nc"
  using assms by (auto simp: train_batch_def Let_def emit_def min_def split: if_splits)

lemma train_batch_loss:
  assumes "train_batch nc nt st b = (r, st')"
  shows "epoch_loss st' \<le> epoch_loss st + 1"
    and "img_channels b = nc \<Longrightarrow> epoch_loss st' = epoch_loss st + min (item_loss b) 1"
  using assms by (auto simp: train_batch_def Let_def emit_def min_def split: if_splits)

lemma train_batch_raises:
  "fst (train_batch nc nt st b) =
     (if img_channels b \<noteq> nc then Some AssertionError
      else if nt div 10 = 0 then Some ZeroDivisionError else None)"
  by (simp add: train_batch_def Let_def)

lemma train_batches_ok:
  "train_batches nc nt st fs = (None, st') \<Longrightarrow>
     global_step st' = global_step st + int (length fs) \<and>
     epoch_loss st' = epoch_loss st + clamped_sum fs \<and>
     best_loss st' = best_loss st \<and> files st' = files st \<and>
     validations (trace st') = validations (trace st) @ due nt (global_step st) (length fs) \<and>
     saves (trace st') = saves (trace st) \<and>
     length (train_losses (trace st')) = length (train_losses (trace st)) + length fs \<and>
     count_list (trace st') SchedulerStep = count_list (trace st) SchedulerStep"
proof (induction fs arbitrary: st)
  case Nil
  then show ?case by (simp add: due_def)
next
  case (Cons f fs)
  show ?case
  proof (cases f)
    case (Raises e)
    with Cons.prems show ?thesis by simp
  next
    case (Batch b)
    with Cons.prems obtain st1 where 1: "train_batch nc nt st b = (None, st1)"
      and 2: "train_batches nc nt st1 fs = (None, st')"
      by (auto split: prod.splits option.splits)
    note ih = Cons.IH [OF 2]
    note tb = train_batch_ok [OF 1]
    show ?thesis
      using ih Batch
      by (simp add: tb(1) due_step validations_append saves_append train_losses_append)
  qed
qed

lemma train_batches_loss_le:
  "train_batches nc nt st fs = (r, st') \<Longrightarrow> epoch_loss st' \<le> epoch_loss st + real (length fs)"
proof (induction fs arbitrary: st)
  case Nil
  then show ?case by simp
next
  case (Cons f fs)
  show ?case
  proof (cases f)
    case (Raises e)
    with Cons.prems show ?thesis by simp
  next
    case (Batch b)
    obtain r1 st1 where 1: "train_batch nc nt st b = (r1, st1)"
      by (cases "train_batch nc nt st b")
    note le1 = train_batch_loss(1) [OF 1]
    show ?thesis
    proof (cases r1)
      case None
      with 1 Batch Cons.prems have "train_batches nc nt st1 fs = (r, st')" by simp
      from Cons.IH [OF this] le1 show ?thesis by simp
    next
      case (Some e)
      with 1 Batch Cons.prems have "st' = st1" by simp
      with le1 show ?thesis by simp
    qed
  qed
qed

lemma train_batches_no_zero_division:
  assumes "10 \<le> nt" and "Raises ZeroDivisionError \<notin> set fs"
  shows "fst (train_batches nc nt st fs) \<noteq> Some ZeroDivisionError"
  using assms(2)
proof (induction fs arbitrary: st)
  case Nil
  then show ?case by simp
next
  case (Cons f fs)
  show ?case
  proof (cases f)
    case (Raises e)
    with Cons.prems show ?thesis by auto
  next
    case (Batch b)
    have q: "nt div 10 \<noteq> 0" using assms(1) by simp
    obtain r1 st1 where 1: "train_batch nc nt st b = (r1, st1)"
      by (cases "train_batch nc nt st b")
    have r1: "r1 \<noteq> Some ZeroDivisionError"
      using train_batch_raises [of nc nt st b] q 1 by (auto split: if_splits)
    from Cons.prems have "Raises ZeroDivisionError \<notin> set fs" by simp
    note ih = Cons.IH [OF this, of st1]
    show ?thesis using Batch 1 r1 ih by (cases r1) simp_all
  qed
qed

subsection \<open>The end of an epoch and the loop over the epochs\<close>

lemma try_mkdir_cases:
  "try_mkdir mk st =
     (case mk of
        None \<Rightarrow> (None, st\<lparr>trace := trace st @
                  [OsMkdir dir_checkpoint, Info ''Created checkpoint directory'']\<rparr>)
      | Some e \<Rightarrow> (if is_OSError e then None else Some e,
                  st\<lparr>trace := trace st @ [OsMkdir dir_checkpoint]\<rparr>))"
  by (simp add: try_mkdir_def emit_def Let_def split: option.splits)

lemma end_of_epoch_frame:
  assumes "end_of_epoch sc fmt mk epoch st = (r, st')"
  shows "global_step st' = global_step st" and "epoch_loss st' = epoch_loss st"
    and "model_sd st' = model_sd st" and "optim_sd st' = optim_sd st"
    and "\<exists>post. trace st' = trace st @ SchedulerStep # post \<and> count_list post SchedulerStep = 0
           \<and> train_losses post = [] \<and> validations post = []"
  using assms
  by (auto simp: end_of_epoch_def try_mkdir_cases emit_def Let_def save_pt_def torch_save_def
        split: option.splits if_splits)

lemma end_of_epoch_ok:
  assumes "end_of_epoch True fmt mk epoch st = (None, st')"
  shows "saves (trace st') = saves (trace st) @
           (if epoch_loss st < best_loss st then [ckpt_name fmt epoch (epoch_loss st)] else [])"
    and "best_loss st' = (if epoch_loss st < best_loss st then epoch_loss st else best_loss st)"
    and "epoch_loss st < best_loss st \<Longrightarrow>
           files st' = (files st)(ckpt_name fmt epoch (epoch_loss st) \<mapsto>
              [''model'' \<mapsto> model_sd st, ''optimizer'' \<mapsto> optim_sd st])"
    and "\<not> epoch_loss st < best_loss st \<Longrightarrow> files st' = files st"
  using assms
  by (auto simp: end_of_epoch_def try_mkdir_cases emit_def Let_def save_pt_def torch_save_def
        saves_append split: option.splits if_splits)

lemma run_epoch_split:
  assumes "run_epoch env nc nt sc fmt epoch st = (None, st')"
  obtains st1 where
    "train_batches nc nt (st\<lparr>epoch_loss := 0\<rparr>) (loader env epoch) = (None, st1)" and
    "end_of_epoch sc fmt (mkdir_outcome env epoch) epoch st1 = (None, st')"
  using assms by (auto simp: run_epoch_def split: prod.splits option.splits)

lemma run_epoch_frame:
  assumes "run_epoch env nc nt sc fmt epoch st = (None, st')"
  shows "global_step st' = global_step st + int (length (loader env epoch))"
    and "validations (trace st') =
           validations (trace st) @ due nt (global_step st) (length (loader env epoch))"
    and "count_list (trace st') SchedulerStep = count_list (trace st) SchedulerStep + 1"
proof -
  from assms obtain st1 where
    1: "train_batches nc nt (st\<lparr>epoch_loss := 0\<rparr>) (loader env epoch) = (None, st1)" and
    2: "end_of_epoch sc fmt (mkdir_outcome env epoch) epoch st1 = (None, st')"
    by (rule run_epoch_split)
  note tb = train_batches_ok [OF 1]
  note ee = end_of_epoch_frame [OF 2]
  from ee(5) obtain post where
    p: "trace st' = trace st1 @ SchedulerStep # post" "count_list post SchedulerStep = 0"
      "validations post = []"
    by blast
  show "global_step st' = global_step st + int (length (loader env epoch))"
    using tb ee(1) by simp
  show "validations (trace st') =
           validations (trace st) @ due nt (global_step st) (length (loader env epoch))"
    using tb p by (simp add: validations_append)
  show "count_list (trace st') SchedulerStep = count_list (trace st) SchedulerStep + 1"
    using tb p by simp
qed

lemma run_epoch_ok:
  assumes "run_epoch env nc nt True fmt epoch st = (None, st')"
  shows "saves (trace st') = saves (trace st) @
           (if clamped_sum (loader env epoch) < best_loss st
            then [ckpt_name fmt epoch (clamped_sum (loader env epoch))] else [])"
    and "best_loss st' =
           (if clamped_sum (loader env epoch) < best_loss st
            then clamped_sum (loader env epoch) else best_loss st)"
proof -
  from assms obtain st1 where
    1: "train_batches nc nt (st\<lparr>epoch_loss := 0\<rparr>) (loader env epoch) = (None, st1)" and
    2: "end_of_epoch True fmt (mkdir_outcome env epoch) epoch st1 = (None, st')"
    by (rule run_epoch_split)
  note tb = train_batches_ok [OF 1]
  note ee = end_of_epoch_ok [OF 2]
  show "saves (trace st') = saves (trace st) @
           (if clamped_sum (loader env epoch) < best_loss st
            then [ckpt_name fmt epoch (clamped_sum (loader env epoch))] else [])"
    using tb ee(1) by simp
  show "best_loss st' =
           (if clamped_sum (loader env epoch) < best_loss st
            then clamped_sum (loader env epoch) else best_loss st)"
    using tb ee(2) by simp
qed

lemma run_epochs_frame:
  "run_epochs env nc nt sc fmt es st = (None, st') \<Longrightarrow>
     global_step st' = global_step st + int (total_batches env es) \<and>
     validations (trace st') =
       validations (trace st) @ due nt (global_step st) (total_batches env es) \<and>
     count_list (trace st') SchedulerStep = count_list (trace st) SchedulerStep + length es"
proof (induction es arbitrary: st)
  case Nil
  then show ?case by (simp add: total_batches_def due_def)
next
  case (Cons e es)
  from Cons.prems obtain st1 where
    1: "run_epoch env nc nt sc fmt e st = (None, st1)" and
    2: "run_epochs env nc nt sc fmt es st1 = (None, st')"
    by (auto split: prod.splits option.splits)
  note re = run_epoch_frame [OF 1]
  note ih = Cons.IH [OF 2]
  have tb: "total_batches env (e # es) = length (loader env e) + total_batches env es"
    by (simp add: total_batches_def)
  show ?case
    using ih re by (simp add: tb due_append)
qed


subsection \<open>The learning-rate factor\<close>

lemma lf_value:
  assumes "epochs \<noteq> 0"
  shows "lf epochs x = Inr ((1 + cos (x * pi / real_of_int epochs)) / 2 * 0.95 + 0.05)"
proof -
  have "0 \<le> 1 + cos (x * pi / real_of_int epochs)"
    using cos_ge_minus_one [of "x * pi / real_of_int epochs"] by linarith
  then have "0 \<le> (1 + cos (x * pi / real_of_int epochs)) / 2" by simp
  then show ?thesis using assms by (simp add: lf_def)
qed

lemma lf_antimono:
  assumes "epochs \<noteq> 0" "0 \<le> x" "x \<le> y" "y \<le> real_of_int epochs"
  shows "\<exists>a b. lf epochs x = Inr a \<and> lf epochs y = Inr b \<and> b \<le> a"
proof -
  have "0 \<le> real_of_int epochs" using assms by linarith
  then have e: "0 < real_of_int epochs" using assms(1) by simp
  have 1: "0 \<le> x * pi / real_of_int epochs" using assms e by simp
  have 2: "x * pi / real_of_int epochs \<le> y * pi / real_of_int epochs"
    using assms e by (simp add: divide_right_mono)
  have "y * pi / real_of_int epochs \<le> real_of_int epochs * pi / real_of_int epochs"
    using assms e by (intro divide_right_mono mult_right_mono) simp_all
  then have 3: "y * pi / real_of_int epochs \<le> pi" using e by simp
  have "cos (y * pi / real_of_int epochs) \<le> cos (x * pi / real_of_int epochs)"
    using cos_monotone_0_pi_le [OF 1 2 3] .
  then show ?thesis using assms by (simp add: lf_value)
qed

section \<open>The claims\<close>

subsection \<open>C1: checkpoint on improvement\<close>



subsection \<open>C2: the keyboard interrupt\<close>

text \<open>
  C2, as stated: a keyboard interrupt during training makes the script save the states of
  the model and the optimizer to \<^verbatim>\<open>INTERRUPTED.pt\<close>, and no other exception type is
  handled by the script. The second half fails: an \<^verbatim>\<open>OSError\<close> raised by
  \<^verbatim>\<open>os.mkdir\<close> is caught inside \<^verbatim>\<open>train_net\<close>. Here the directory exists in both
  epochs, \<^verbatim>\<open>os.mkdir\<close> raises \<^verbatim>\<open>FileExistsError\<close>, and the run ends normally with the
  first epoch's checkpoint written.
\<close>

theorem only_interrupt_handled_counterexample:
  "mkdir_outcome (env_exists 10 0.5) 0 = Some FileExistsError \<and>
   FileExistsError \<noteq> KeyboardInterrupt \<and>
   fst (main args0 (env_exists 10 0.5) 111 fmt0 st0) = None \<and>
   saves (trace (snd (main args0 (env_exists 10 0.5) 111 fmt0 st0))) = [''ckpts//epoch1_L.pt'']"
  by (simp add: ev eval_nat_numeral)

text \<open>
  C2, amended: when \<^verbatim>\<open>train_net\<close> is left by a keyboard interrupt, the script writes the
  states the model and the optimizer have at that moment to \<^verbatim>\<open>INTERRUPTED.pt\<close>, under the
  keys \<^verbatim>\<open>model\<close> and \<^verbatim>\<open>optimizer\<close>. The handler around \<^verbatim>\<open>train_net\<close> catches nothing
  else: any other exception leaves the script as it was raised, with nothing written. Inside
  \<^verbatim>\<open>train_net\<close> the handler around \<^verbatim>\<open>os.mkdir\<close> catches \<^verbatim>\<open>OSError\<close> and its subclasses,
  and only those.
\<close>

theorem interrupt_checkpoint:
  "(train_net env (select_model (arg_unet_type a)) N (arg_epochs a) (arg_val a / 100) True fmt s
       = (Some KeyboardInterrupt, s1) \<longrightarrow>
      files (snd (main a env N fmt s)) ''INTERRUPTED.pt'' =
        Some [''model'' \<mapsto> model_sd s1, ''optimizer'' \<mapsto> optim_sd s1] \<and>
      saves (trace (snd (main a env N fmt s))) = saves (trace s1) @ [''INTERRUPTED.pt'']) \<and>
   (train_net env (select_model (arg_unet_type a)) N (arg_epochs a) (arg_val a / 100) True fmt s
       = (Some e1, s2) \<and> e1 \<noteq> KeyboardInterrupt \<longrightarrow>
      main a env N fmt s = (Some e1, s2)) \<and>
   (train_net env (select_model (arg_unet_type a)) N (arg_epochs a) (arg_val a / 100) True fmt s
       = (None, s3) \<longrightarrow>
      main a env N fmt s = (None, s3)) \<and>
   (is_OSError e2 \<longrightarrow> fst (try_mkdir (Some e2) t) = None) \<and>
   (\<not> is_OSError e3 \<longrightarrow> fst (try_mkdir (Some e3) t) = Some e3)"
proof (intro conjI impI)
  assume "train_net env (select_model (arg_unet_type a)) N (arg_epochs a) (arg_val a / 100) True fmt s
       = (Some KeyboardInterrupt, s1)"
  then have m: "main a env N fmt s = on_interrupt s1"
    by (simp add: main_def main_try_def)
  show "files (snd (main a env N fmt s)) ''INTERRUPTED.pt'' =
        Some [''model'' \<mapsto> model_sd s1, ''optimizer'' \<mapsto> optim_sd s1]"
    unfolding m by (simp add: on_interrupt_def sys_exit_def save_pt_def torch_save_def emit_def)
  show "saves (trace (snd (main a env N fmt s))) = saves (trace s1) @ [''INTERRUPTED.pt'']"
    unfolding m
    by (simp add: on_interrupt_def sys_exit_def save_pt_def torch_save_def emit_def saves_append)
next
  assume "train_net env (select_model (arg_unet_type a)) N (arg_epochs a) (arg_val a / 100) True fmt s
       = (Some e1, s2) \<and> e1 \<noteq> KeyboardInterrupt"
  then show "main a env N fmt s = (Some e1, s2)"
    by (cases e1) (simp_all add: main_def main_try_def)
next
  assume "train_net env (select_model (arg_unet_type a)) N (arg_epochs a) (arg_val a / 100) True fmt s
       = (None, s3)"
  then show "main a env N fmt s = (None, s3)"
    by (simp add: main_def main_try_def)
next
  assume "is_OSError e2"
  then show "fst (try_mkdir (Some e2) t) = None" by (simp add: try_mkdir_cases)
next
  assume "\<not> is_OSError e3"
  then show "fst (try_mkdir (Some e3) t) = Some e3" by (simp add: try_mkdir_cases)
qed

text \<open>
  The second epoch is interrupted after its first batch, which left the model at 1 and the
  optimizer at 2: these are the states written to \<^verbatim>\<open>INTERRUPTED.pt\<close>. A run on five
  samples fails with a division by zero, which leaves the script as it is; a run of two
  full epochs ends normally.
\<close>

theorem interrupt_checkpoint_witness:
  "fst (train_net env_interrupted (select_model (arg_unet_type args0)) 111 (arg_epochs args0)
          (arg_val args0 / 100) True fmt0 st0) = Some KeyboardInterrupt \<and>
   files (snd (main args0 env_interrupted 111 fmt0 st0)) ''INTERRUPTED.pt'' =
     Some [''model'' \<mapsto> 1, ''optimizer'' \<mapsto> 2] \<and>
   saves (trace (snd (main args0 env_interrupted 111 fmt0 st0))) =
     [''ckpts//epoch1_L.pt'', ''INTERRUPTED.pt''] \<and>
   fst (main args0 (env_ok 1 0.5) 5 fmt0 st0) = Some ZeroDivisionError \<and>
   ZeroDivisionError \<noteq> KeyboardInterrupt \<and>
   saves (trace (snd (main args0 (env_ok 1 0.5) 5 fmt0 st0))) = [] \<and>
   fst (main args0 (env_ok 10 0.5) 111 fmt0 st0) = None \<and>
   is_OSError FileExistsError \<and> fst (try_mkdir (Some FileExistsError) st0) = None \<and>
   \<not> is_OSError KeyboardInterrupt \<and>
   fst (try_mkdir (Some KeyboardInterrupt) st0) = Some KeyboardInterrupt"
  using interrupt_checkpoint [where env = env_interrupted and a = args0 and N = 111
      and fmt = fmt0 and s = st0
      and ?s1.0 = "snd (train_net env_interrupted (select_model (arg_unet_type args0)) 111
          (arg_epochs args0) (arg_val args0 / 100) True fmt0 st0)"
      and ?e2.0 = FileExistsError and ?e3.0 = KeyboardInterrupt and t = st0
      and ?e1.0 = RuntimeError and ?s2.0 = st0 and ?s3.0 = st0]
    interrupt_checkpoint [where env = "env_ok 1 0.5" and a = args0 and N = 5
      and fmt = fmt0 and s = st0 and ?e1.0 = ZeroDivisionError
      and ?s2.0 = "snd (train_net (env_ok 1 0.5) (select_model (arg_unet_type args0)) 5
          (arg_epochs args0) (arg_val args0 / 100) True fmt0 st0)"
      and ?s1.0 = st0 and ?s3.0 = st0
      and ?e2.0 = FileExistsError and ?e3.0 = KeyboardInterrupt and t = st0]
    interrupt_checkpoint [where env = "env_ok 10 0.5" and a = args0 and N = 111
      and fmt = fmt0 and s = st0 and ?e1.0 = ZeroDivisionError and ?s2.0 = st0
      and ?s1.0 = st0
      and ?s3.0 = "snd (train_net (env_ok 10 0.5) (select_model (arg_unet_type args0)) 111
          (arg_epochs args0) (arg_val args0 / 100) True fmt0 st0)"
      and ?e2.0 = FileExistsError and ?e3.0 = KeyboardInterrupt and t = st0]
  by (simp add: ev eval_nat_numeral)

subsection \<open>C3: the split of the dataset\<close>




subsection \<open>C4: the cadence of validation\<close>

text \<open>
  C4, as stated: validation runs after a batch exactly when the global step is divisible by
  \<^verbatim>\<open>n_train // 10\<close>, so roughly ten times per epoch. The consequence fails once a batch
  holds more than one sample. With 100 training samples in 5 batches (batch size 20) the
  first epoch ends at global step 5, and validation has not run at all.
\<close>

theorem ten_validations_counterexample:
  "n_train 111 0.1 = 100 \<and>
   length (loader (env_ok 5 0.5) 0) = 5 \<and>
   fst (train_net (env_ok 5 0.5) (select_model ''v3'') 111 1 0.1 True fmt0 st0) = None \<and>
   global_step (snd (train_net (env_ok 5 0.5) (select_model ''v3'') 111 1 0.1 True fmt0 st0)) = 5 \<and>
   validations (trace (snd (train_net (env_ok 5 0.5) (select_model ''v3'') 111 1 0.1 True fmt0 st0)))
     = []"
  by (simp add: ev eval_nat_numeral)

text \<open>
  C4, amended: the global step is incremented once per batch and counts the batches across
  all epochs; validation runs after a batch exactly when the incremented global step is
  divisible by \<^verbatim>\<open>n_train // 10\<close>. Over a whole run the validations are therefore at the
  multiples of \<^verbatim>\<open>n_train // 10\<close> among the steps 1 to the total number of batches. With
  one batch per training sample (batch size 1) and at least ten samples this is between 10
  and 19 times in every epoch; with larger batches it is correspondingly less often.
\<close>

theorem validation_cadence:
  "(train_batch nc nt s b = (None, s') \<longrightarrow>
      global_step s' = global_step s + 1 \<and>
      validations (trace s') = validations (trace s) @
        (if (global_step s + 1) mod (nt div 10) = 0 then [global_step s + 1] else [])) \<and>
   (train_net env model N epochs val_percent sc fmt t = (None, t') \<longrightarrow>
      global_step t' = int (total_batches env [0..<nat epochs]) \<and>
      validations (trace t') = validations (trace t) @
        filter (\<lambda>g. g mod (n_train N val_percent div 10) = 0)
          [1..int (total_batches env [0..<nat epochs])]) \<and>
   (run_epoch env nc nt sc fmt epoch u = (None, u') \<and> 10 \<le> nt \<and>
    length (loader env epoch) = nat nt \<longrightarrow>
      (\<exists>new. validations (trace u') = validations (trace u) @ new \<and>
             10 \<le> length new \<and> length new \<le> 19))"
proof (intro conjI impI)
  assume a: "train_batch nc nt s b = (None, s')"
  show "global_step s' = global_step s + 1"
    by (subst train_batch_ok(1) [OF a]) simp
  show "validations (trace s') = validations (trace s) @
        (if (global_step s + 1) mod (nt div 10) = 0 then [global_step s + 1] else [])"
    by (subst train_batch_ok(1) [OF a]) (simp add: validations_append)
next
  assume "train_net env model N epochs val_percent sc fmt t = (None, t')"
  then have r: "run_epochs env (n_channels model) (n_train N val_percent) sc fmt [0..<nat epochs]
      (t\<lparr>global_step := 0, best_loss := 10000\<rparr>) = (None, t')"
    by (simp add: train_net_def)
  note f = run_epochs_frame [OF r]
  show "global_step t' = int (total_batches env [0..<nat epochs])"
    using f by simp
  show "validations (trace t') = validations (trace t) @
        filter (\<lambda>g. g mod (n_train N val_percent div 10) = 0)
          [1..int (total_batches env [0..<nat epochs])]"
    using f by (simp add: due_def)
next
  assume a: "run_epoch env nc nt sc fmt epoch u = (None, u') \<and> 10 \<le> nt \<and>
    length (loader env epoch) = nat nt"
  then have v: "validations (trace u') = validations (trace u) @ due nt (global_step u) (nat nt)"
    using run_epoch_frame(2) [of env nc nt sc fmt epoch u u'] by simp
  from a have "10 \<le> nt" by simp
  from count_batch_size_one [OF this, of "global_step u"] v
  show "\<exists>new. validations (trace u') = validations (trace u) @ new \<and>
             10 \<le> length new \<and> length new \<le> 19"
    by blast
qed

text \<open>
  Two epochs of ten batches with 100 training samples: validation at the steps 10 and 20.
  One epoch of ten batches with ten training samples: validation after every batch.
\<close>

theorem validation_cadence_witness:
  "fst (train_batch 3 100 (st0\<lparr>global_step := 9\<rparr>) (bt 0.5)) = None \<and>
   validations (trace (snd (train_batch 3 100 (st0\<lparr>global_step := 9\<rparr>) (bt 0.5)))) = [10] \<and>
   fst (train_net (env_ok 10 0.5) (select_model ''v3'') 111 2 0.1 True fmt0 st0) = None \<and>
   global_step (snd (train_net (env_ok 10 0.5) (select_model ''v3'') 111 2 0.1 True fmt0 st0)) = 20 \<and>
   validations (trace (snd (train_net (env_ok 10 0.5) (select_model ''v3'') 111 2 0.1 True fmt0 st0)))
     = [10, 20] \<and>
   fst (run_epoch (env_ok 10 0.5) 3 10 True fmt0 0 st0) = None \<and>
   length (loader (env_ok 10 0.5) 0) = nat 10 \<and>
   validations (trace (snd (run_epoch (env_ok 10 0.5) 3 10 True fmt0 0 st0)))
     = [1, 2, 3, 4, 5, 6, 7, 8, 9, 10]"
  using validation_cadence [where nc = 3 and nt = 100 and s = "st0\<lparr>global_step := 9\<rparr>"
      and b = "bt 0.5" and s' = "snd (train_batch 3 100 (st0\<lparr>global_step := 9\<rparr>) (bt 0.5))"
      and env = "env_ok 10 0.5" and model = "select_model ''v3''" and N = 111 and epochs = 2
      and val_percent = "0.1" and sc = True and fmt = fmt0 and t = st0
      and t' = "snd (train_net (env_ok 10 0.5) (select_model ''v3'') 111 2 0.1 True fmt0 st0)"
      and epoch = 0 and u = st0 and u' = st0]
    validation_cadence [where nc = 3 and nt = 10 and env = "env_ok 10 0.5" and sc = True
      and fmt = fmt0 and epoch = 0 and u = st0
      and u' = "snd (run_epoch (env_ok 10 0.5) 3 10 True fmt0 0 st0)"
      and s = st0 and b = "bt 0.5" and s' = st0 and model = "select_model ''v3''" and N = 111
      and epochs = 0 and val_percent = "0.1" and t = st0 and t' = st0]
  by (simp add: ev eval_nat_numeral total_batches_def)

subsection \<open>C5: the learning-rate schedule\<close>

text \<open>
  C5. For a number of epochs other than zero (where the division raises) the factor is
  \<open>lf x = (1 + cos (x * pi / epochs)) / 2 * 0.95 + 0.05\<close>; it is 1 at 0 and 0.05 at
  \<^verbatim>\<open>epochs\<close>, and it does not increase on the interval from 0 to \<^verbatim>\<open>epochs\<close>. The scheduler
  is stepped once in every completed epoch, after the last batch of the epoch and before
  any later event of that epoch; a completed run has stepped it once per epoch.
\<close>

theorem lr_schedule:
  assumes "epochs \<noteq> 0"
  shows "lf epochs 0 = Inr 1 \<and>
    lf epochs (real_of_int epochs) = Inr 0.05 \<and>
    lf epochs x = Inr ((1 + cos (x * pi / real_of_int epochs)) / 2 * 0.95 + 0.05) \<and>
    (0 \<le> x \<and> x \<le> y \<and> y \<le> real_of_int epochs \<longrightarrow>
       (\<exists>a b. lf epochs x = Inr a \<and> lf epochs y = Inr b \<and> b \<le> a)) \<and>
    (run_epoch env nc nt sc fmt epoch s = (None, s') \<longrightarrow>
       (\<exists>s1 post.
          train_batches nc nt (s\<lparr>epoch_loss := 0\<rparr>) (loader env epoch) = (None, s1) \<and>
          length (train_losses (trace s1)) =
            length (train_losses (trace s)) + length (loader env epoch) \<and>
          count_list (trace s1) SchedulerStep = count_list (trace s) SchedulerStep \<and>
          trace s' = trace s1 @ SchedulerStep # post \<and>
          count_list post SchedulerStep = 0 \<and> train_losses post = [])) \<and>
    (train_net env model N epochs val_percent sc fmt t = (None, t') \<longrightarrow>
       count_list (trace t') SchedulerStep = count_list (trace t) SchedulerStep + nat epochs)"
proof (intro conjI impI)
  note ne = assms
  show "lf epochs 0 = Inr 1" using ne by (simp add: lf_value)
  show "lf epochs (real_of_int epochs) = Inr 0.05" using ne by (simp add: lf_value)
  show "lf epochs x = Inr ((1 + cos (x * pi / real_of_int epochs)) / 2 * 0.95 + 0.05)"
    using ne by (rule lf_value)
next
  assume "0 \<le> x \<and> x \<le> y \<and> y \<le> real_of_int epochs"
  then show "\<exists>a b. lf epochs x = Inr a \<and> lf epochs y = Inr b \<and> b \<le> a"
    using lf_antimono [OF assms, of x y] by simp
next
  assume "run_epoch env nc nt sc fmt epoch s = (None, s')"
  then obtain s1 where
    1: "train_batches nc nt (s\<lparr>epoch_loss := 0\<rparr>) (loader env epoch) = (None, s1)" and
    2: "end_of_epoch sc fmt (mkdir_outcome env epoch) epoch s1 = (None, s')"
    by (rule run_epoch_split)
  note tb = train_batches_ok [OF 1]
  from end_of_epoch_frame(5) [OF 2] obtain post where
    p: "trace s' = trace s1 @ SchedulerStep # post" "count_list post SchedulerStep = 0"
      "train_losses post = []"
    by blast
  have "length (train_losses (trace s1)) =
      length (train_losses (trace s)) + length (loader env epoch)"
    using tb by simp
  moreover have "count_list (trace s1) SchedulerStep = count_list (trace s) SchedulerStep"
    using tb by simp
  ultimately show "\<exists>s1 post.
          train_batches nc nt (s\<lparr>epoch_loss := 0\<rparr>) (loader env epoch) = (None, s1) \<and>
          length (train_losses (trace s1)) =
            length (train_losses (trace s)) + length (loader env epoch) \<and>
          count_list (trace s1) SchedulerStep = count_list (trace s) SchedulerStep \<and>
          trace s' = trace s1 @ SchedulerStep # post \<and>
          count_list post SchedulerStep = 0 \<and> train_losses post = []"
    using 1 p by blast
next
  assume "train_net env model N epochs val_percent sc fmt t = (None, t')"
  then have r: "run_epochs env (n_channels model) (n_train N val_percent) sc fmt [0..<nat epochs]
      (t\<lparr>global_step := 0, best_loss := 10000\<rparr>) = (None, t')"
    by (simp add: train_net_def)
  from run_epochs_frame [OF r]
  show "count_list (trace t') SchedulerStep = count_list (trace t) SchedulerStep + nat epochs"
    by simp
qed

text \<open>
  With two epochs the factor is 1, 0.525 and 0.05 at 0, 1 and 2, and a run of two epochs
  steps the scheduler twice.
\<close>

theorem lr_schedule_witness:
  "(2::int) \<noteq> 0 \<and> (0::real) \<le> 1 \<and> (1::real) \<le> 2 \<and> lf 2 0 = Inr 1 \<and> lf 2 1 = Inr 0.525 \<and> lf 2 2 = Inr 0.05 \<and>
   fst (run_epoch (env_ok 10 0.5) 3 100 True fmt0 0 st0) = None \<and>
   count_list (trace (snd (run_epoch (env_ok 10 0.5) 3 100 True fmt0 0 st0))) SchedulerStep = 1 \<and>
   fst (train_net (env_ok 10 0.5) (select_model ''v3'') 111 2 0.1 True fmt0 st0) = None \<and>
   count_list (trace (snd (train_net (env_ok 10 0.5) (select_model ''v3'') 111 2 0.1 True fmt0 st0)))
     SchedulerStep = 2"
  using lr_schedule [where epochs = 2 and x = 1 and y = 2 and env = "env_ok 10 0.5"
      and model = "select_model ''v3''" and N = 111 and val_percent = "0.1" and sc = True
      and fmt = fmt0 and t = st0
      and t' = "snd (train_net (env_ok 10 0.5) (select_model ''v3'') 111 2 0.1 True fmt0 st0)"
      and nc = 3 and nt = 100 and epoch = 0 and s = st0
      and s' = "snd (run_epoch (env_ok 10 0.5) 3 100 True fmt0 0 st0)"]
  by (simp add: ev eval_nat_numeral)

subsection \<open>C6: saving and loading a checkpoint\<close>

text \<open>
  C6. \<^verbatim>\<open>save_pt\<close> writes to the file a checkpoint with exactly the two keys \<^verbatim>\<open>model\<close> and
  \<^verbatim>\<open>optimizer\<close>, holding the state dicts of the model and of the optimizer, and changes
  neither of them. Whatever the model and the optimizer hold later, \<^verbatim>\<open>load_pt\<close> on a file
  that still has this content returns normally and restores both saved states.
\<close>

theorem checkpoint_roundtrip:
  "files (save_pt f s) f = Some [''model'' \<mapsto> model_sd s, ''optimizer'' \<mapsto> optim_sd s] \<and>
   dom [''model'' \<mapsto> model_sd s, ''optimizer'' \<mapsto> optim_sd s] = {''model'', ''optimizer''} \<and>
   model_sd (save_pt f s) = model_sd s \<and> optim_sd (save_pt f s) = optim_sd s \<and>
   (files t f = files (save_pt f s) f \<longrightarrow>
      load_pt f t = (None, t\<lparr>model_sd := model_sd s, optim_sd := optim_sd s\<rparr>))"
proof (intro conjI impI)
  show "files (save_pt f s) f = Some [''model'' \<mapsto> model_sd s, ''optimizer'' \<mapsto> optim_sd s]"
    by (simp add: save_pt_def torch_save_def emit_def)
  show "dom [''model'' \<mapsto> model_sd s, ''optimizer'' \<mapsto> optim_sd s] = {''model'', ''optimizer''}"
    by auto
  show "model_sd (save_pt f s) = model_sd s"
    by (simp add: save_pt_def torch_save_def emit_def)
  show "optim_sd (save_pt f s) = optim_sd s"
    by (simp add: save_pt_def torch_save_def emit_def)
next
  assume "files t f = files (save_pt f s) f"
  then show "load_pt f t = (None, t\<lparr>model_sd := model_sd s, optim_sd := optim_sd s\<rparr>)"
    by (simp add: load_pt_def save_pt_def torch_save_def emit_def)
qed

text \<open>
  A model at 7 and an optimizer at 9 are saved; both are then reset to 0; loading the file
  brings back 7 and 9.
\<close>

theorem checkpoint_roundtrip_witness:
  "files ((save_pt ''a.pt'' (st0\<lparr>model_sd := 7, optim_sd := 9\<rparr>))\<lparr>model_sd := 0, optim_sd := 0\<rparr>)
     ''a.pt'' = files (save_pt ''a.pt'' (st0\<lparr>model_sd := 7, optim_sd := 9\<rparr>)) ''a.pt'' \<and>
   fst (load_pt ''a.pt''
     ((save_pt ''a.pt'' (st0\<lparr>model_sd := 7, optim_sd := 9\<rparr>))\<lparr>model_sd := 0, optim_sd := 0\<rparr>)) = None \<and>
   model_sd (snd (load_pt ''a.pt''
     ((save_pt ''a.pt'' (st0\<lparr>model_sd := 7, optim_sd := 9\<rparr>))\<lparr>model_sd := 0, optim_sd := 0\<rparr>))) = 7 \<and>
   optim_sd (snd (load_pt ''a.pt''
     ((save_pt ''a.pt'' (st0\<lparr>model_sd := 7, optim_sd := 9\<rparr>))\<lparr>model_sd := 0, optim_sd := 0\<rparr>))) = 9"
  using checkpoint_roundtrip [where f = "''a.pt''" and s = "st0\<lparr>model_sd := 7, optim_sd := 9\<rparr>"
      and t = "(save_pt ''a.pt'' (st0\<lparr>model_sd := 7, optim_sd := 9\<rparr>))\<lparr>model_sd := 0, optim_sd := 0\<rparr>"]
  by (simp add: ev)

subsection \<open>C7: creating the checkpoint directory\<close>



subsection \<open>C8: the modulus of the cadence check\<close>

text \<open>
  C8. For a training set of at least ten samples \<^verbatim>\<open>n_train // 10\<close> is not zero, and the
  cadence check never raises a division by zero: neither a single batch nor a whole loop
  ends with that error (unless the framework itself raises it). For a training set of fewer
  than ten samples the modulus is zero, and the first batch that passes the check of the
  channels ends the loop with a division by zero.
\<close>

theorem cadence_modulus:
  "(10 \<le> nt \<longrightarrow>
      nt div 10 \<noteq> 0 \<and>
      fst (train_batch nc nt s b) \<noteq> Some ZeroDivisionError \<and>
      (Raises ZeroDivisionError \<notin> set fs \<longrightarrow>
         fst (train_batches nc nt s fs) \<noteq> Some ZeroDivisionError)) \<and>
   (0 \<le> nt \<and> nt < 10 \<and> img_channels b = nc \<longrightarrow>
      nt div 10 = 0 \<and>
      fst (train_batch nc nt s b) = Some ZeroDivisionError \<and>
      fst (train_batches nc nt s (Batch b # fs)) = Some ZeroDivisionError)"
proof (intro conjI impI)
  assume a: "10 \<le> nt"
  then show q: "nt div 10 \<noteq> 0" by simp
  show "fst (train_batch nc nt s b) \<noteq> Some ZeroDivisionError"
    using q by (simp add: train_batch_raises)
  assume "Raises ZeroDivisionError \<notin> set fs"
  with a show "fst (train_batches nc nt s fs) \<noteq> Some ZeroDivisionError"
    by (rule train_batches_no_zero_division)
next
  assume a: "0 \<le> nt \<and> nt < 10 \<and> img_channels b = nc"
  then show q: "nt div 10 = 0" by simp
  show z: "fst (train_batch nc nt s b) = Some ZeroDivisionError"
    using a q by (simp add: train_batch_raises)
  obtain r s1 where 1: "train_batch nc nt s b = (r, s1)"
    by (cases "train_batch nc nt s b")
  with z have "r = Some ZeroDivisionError" by simp
  with 1 show "fst (train_batches nc nt s (Batch b # fs)) = Some ZeroDivisionError"
    by simp
qed

text \<open>
  Three batches with 100 training samples run through; with nine samples the first batch
  ends the loop.
\<close>

theorem cadence_modulus_witness:
  "(10::int) \<le> 100 \<and> Raises ZeroDivisionError \<notin> set (replicate 3 (Batch (bt 0.5))) \<and>
   fst (train_batches 3 100 st0 (replicate 3 (Batch (bt 0.5)))) = None \<and>
   (0::int) \<le> 9 \<and> (9::int) < 10 \<and> img_channels (bt 0.5) = 3 \<and>
   fst (train_batches 3 9 st0 (Batch (bt 0.5) # replicate 2 (Batch (bt 0.5))))
     = Some ZeroDivisionError \<and>
   global_step (snd (train_batches 3 9 st0 (Batch (bt 0.5) # replicate 2 (Batch (bt 0.5))))) = 1"
  using cadence_modulus [where nt = 100 and nc = 3 and s = st0 and b = "bt 0.5"
      and fs = "replicate 3 (Batch (bt 0.5))"]
    cadence_modulus [where nt = 9 and nc = 3 and s = st0 and b = "bt 0.5"
      and fs = "replicate 2 (Batch (bt 0.5))"]
  by (simp add: ev eval_nat_numeral)

subsection \<open>C9: the clamped epoch loss\<close>

text \<open>
  C9. A batch that passes the check of the channels adds the smaller of its loss and 1 to
  the epoch's loss. An epoch starts at 0, so after a loop over \<open>k\<close> batches, however it
  ends, the epoch's loss is at most \<open>k\<close>, and after a loop that ran through it is the sum
  of the clamped losses. That sum is what the end of the epoch compares with the best loss
  and what becomes the best loss.
\<close>

theorem epoch_loss_clamped:
  "(img_channels b = nc \<and> train_batch nc nt s b = (r, s') \<longrightarrow>
      epoch_loss s' = epoch_loss s + min (item_loss b) 1) \<and>
   (train_batches nc nt (t\<lparr>epoch_loss := 0\<rparr>) fs = (r1, t1) \<longrightarrow>
      epoch_loss t1 \<le> real (length fs)) \<and>
   (train_batches nc nt (t\<lparr>epoch_loss := 0\<rparr>) fs = (None, t2) \<longrightarrow>
      epoch_loss t2 = clamped_sum fs) \<and>
   (run_epoch env nc nt True fmt epoch u = (None, u') \<longrightarrow>
      saves (trace u') = saves (trace u) @
        (if clamped_sum (loader env epoch) < best_loss u
         then [ckpt_name fmt epoch (clamped_sum (loader env epoch))] else []) \<and>
      best_loss u' =
        (if clamped_sum (loader env epoch) < best_loss u
         then clamped_sum (loader env epoch) else best_loss u))"
proof (intro conjI impI)
  assume "img_channels b = nc \<and> train_batch nc nt s b = (r, s')"
  then show "epoch_loss s' = epoch_loss s + min (item_loss b) 1"
    using train_batch_loss(2) [of nc nt s b r s'] by simp
next
  assume "train_batches nc nt (t\<lparr>epoch_loss := 0\<rparr>) fs = (r1, t1)"
  from train_batches_loss_le [OF this] show "epoch_loss t1 \<le> real (length fs)" by simp
next
  assume "train_batches nc nt (t\<lparr>epoch_loss := 0\<rparr>) fs = (None, t2)"
  from train_batches_ok [OF this] show "epoch_loss t2 = clamped_sum fs" by simp
next
  assume a: "run_epoch env nc nt True fmt epoch u = (None, u')"
  show "saves (trace u') = saves (trace u) @
        (if clamped_sum (loader env epoch) < best_loss u
         then [ckpt_name fmt epoch (clamped_sum (loader env epoch))] else [])"
    by (rule run_epoch_ok(1) [OF a])
  show "best_loss u' =
        (if clamped_sum (loader env epoch) < best_loss u
         then clamped_sum (loader env epoch) else best_loss u)"
    by (rule run_epoch_ok(2) [OF a])
qed

text \<open>
  Two batches of loss 6000 each: the raw losses add up to 12000, above the initial best
  loss, but the epoch's loss is 2, so the epoch is saved and 2 becomes the best loss.
\<close>

theorem epoch_loss_clamped_witness:
  "img_channels (bt 6000) = 3 \<and>
   epoch_loss (snd (train_batch 3 100 st0 (bt 6000))) = 1 \<and>
   fst (train_batches 3 100 (st0\<lparr>epoch_loss := 0\<rparr>) (replicate 2 (Batch (bt 6000)))) = None \<and>
   epoch_loss (snd (train_batches 3 100 (st0\<lparr>epoch_loss := 0\<rparr>) (replicate 2 (Batch (bt 6000)))))
     = 2 \<and>
   fst (run_epoch (env_ok 2 6000) 3 100 True fmt0 0 (st0\<lparr>best_loss := 10000\<rparr>)) = None \<and>
   saves (trace (snd (run_epoch (env_ok 2 6000) 3 100 True fmt0 0 (st0\<lparr>best_loss := 10000\<rparr>))))
     = [''ckpts//epoch1_L.pt''] \<and>
   best_loss (snd (run_epoch (env_ok 2 6000) 3 100 True fmt0 0 (st0\<lparr>best_loss := 10000\<rparr>))) = 2"
  using epoch_loss_clamped [where nc = 3 and nt = 100 and s = st0 and b = "bt 6000"
      and r = "fst (train_batch 3 100 st0 (bt 6000))"
      and s' = "snd (train_batch 3 100 st0 (bt 6000))"
      and t = st0 and fs = "replicate 2 (Batch (bt 6000))"
      and ?r1.0 = None
      and ?t1.0 = "snd (train_batches 3 100 (st0\<lparr>epoch_loss := 0\<rparr>) (replicate 2 (Batch (bt 6000))))"
      and ?t2.0 = "snd (train_batches 3 100 (st0\<lparr>epoch_loss := 0\<rparr>) (replicate 2 (Batch (bt 6000))))"
      and env = "env_ok 2 6000" and fmt = fmt0 and epoch = 0 and u = "st0\<lparr>best_loss := 10000\<rparr>"
      and u' = "snd (run_epoch (env_ok 2 6000) 3 100 True fmt0 0 (st0\<lparr>best_loss := 10000\<rparr>))"]
  by (simp add: ev eval_nat_numeral)

subsection \<open>C10: the choice of the network\<close>

text \<open>
  C10. \<^verbatim>\<open>v2\<close> selects \<^verbatim>\<open>UNet2Plus\<close> and \<^verbatim>\<open>v3\<close> selects \<^verbatim>\<open>UNet3Plus_DeepSup_CGM\<close>; every
  other value of \<^verbatim>\<open>--unet_type\<close>, the documented \<^verbatim>\<open>v1\<close> among them, selects the plain
  \<^verbatim>\<open>UNet\<close>. Each is built with three input channels and one class, and the entry point
  trains the network selected this way.
\<close>

theorem model_selection:
  "select_model ''v2'' = \<lparr>arch = UNet2Plus, n_channels = 3, n_classes = 1\<rparr> \<and>
   select_model ''v3'' = \<lparr>arch = UNet3Plus_DeepSup_CGM, n_channels = 3, n_classes = 1\<rparr> \<and>
   select_model ''v1'' = \<lparr>arch = UNet, n_channels = 3, n_classes = 1\<rparr> \<and>
   (unet_type \<noteq> ''v2'' \<and> unet_type \<noteq> ''v3'' \<longrightarrow>
      select_model unet_type = \<lparr>arch = UNet, n_channels = 3, n_classes = 1\<rparr>) \<and>
   main a env N fmt s =
     main_try (train_net env (select_model (arg_unet_type a)) N (arg_epochs a) (arg_val a / 100)
       True fmt s)"
  by (simp add: select_model_def main_def)

text \<open>An unknown value, an upper-case \<^verbatim>\<open>V3\<close> and the empty string all select the plain network.\<close>

theorem model_selection_witness:
  "''unet'' \<noteq> ''v2'' \<and> ''unet'' \<noteq> ''v3'' \<and>
   select_model ''unet'' = \<lparr>arch = UNet, n_channels = 3, n_classes = 1\<rparr> \<and>
   select_model ''V3'' = \<lparr>arch = UNet, n_channels = 3, n_classes = 1\<rparr> \<and>
   select_model [] = \<lparr>arch = UNet, n_channels = 3, n_classes = 1\<rparr>"
  using model_selection [where unet_type = "''unet''" and a = args0 and env = "env_ok 1 0.5"
      and N = 5 and fmt = fmt0 and s = st0]
    model_selection [where unet_type = "''V3''" and a = args0 and env = "env_ok 1 0.5"
      and N = 5 and fmt = fmt0 and s = st0]
    model_selection [where unet_type = "[]" and a = args0 and env = "env_ok 1 0.5"
      and N = 5 and fmt = fmt0 and s = st0]
  by simp

end
